theory Spec2Isabelle
  imports Complex_Main "HOL-Library.Sublist"
begin

section \<open>Values of the Python program\<close>

text \<open>
  A Python \<^verbatim>\<open>str\<close> is a \<open>string\<close>: a list of characters, each a code point below 256.
  The one character of the program beyond that, the arrow in the text of a request, is
  written as the three bytes of its UTF-8 form.

  A \<^verbatim>\<open>decimal.Decimal\<close> is a sign, a coefficient and an exponent
  (\<open>Finite s c e\<close> is \<open>(-1)^s * c * 10^e\<close>), an infinity with its sign, or a NaN
  (quiet or signalling: the comparison, the only operation of this program that meets a
  NaN amount, raises on both).
\<close>

datatype decimal = Finite bool nat int | Infinity bool | NaN

text \<open>
  A decoded JSON value, as \<^verbatim>\<open>json.loads\<close> builds it: \<^verbatim>\<open>None\<close>, a bool, an int, a
  float, a str, a list, or a dict (an association list: the first binding of a key is
  the dict's entry for it).

  A float is held as the decimal number that Python's \<^verbatim>\<open>str\<close> of it denotes:
  \<^verbatim>\<open>str(100.0) = '100.0'\<close> is \<open>Finite False 1000 (-1)\<close>, \<^verbatim>\<open>str(float('nan')) = 'nan'\<close>
  is \<open>NaN\<close>. \<^verbatim>\<open>str\<close> is one-to-one on floats, and \<^verbatim>\<open>Decimal(str(x))\<close> and the
  truth value are the only uses this program makes of a float it has decoded.
\<close>

datatype json =
    JNull
  | JBool bool
  | JInt int
  | JFloat decimal
  | JStr string
  | JArr "json list"
  | JObj "(string \<times> json) list"

text \<open>
  The exceptions the program raises or lets through, with their messages:
  \<^verbatim>\<open>BankingAPIError\<close> also carries its \<^verbatim>\<open>status_code\<close>; \<open>OtherError\<close> is any exception
  of the transport that no handler of the program converts.
\<close>

datatype error =
    BankingAPIError string "int option"
  | ConnectionError string
  | RuntimeError string
  | ValueError string
  | AttributeError string
  | TypeError string
  | InvalidOperation
  | FrozenInstanceError string
  | OtherError string

text \<open>
  The request that the client hands to \<^verbatim>\<open>session.request\<close>: the keyword arguments of
  the call.
\<close>

record http_request =
  http_method :: string
  url :: string
  json_body :: "json option"
  params :: "(string \<times> json) list option"
  headers :: "(string \<times> string) list"

text \<open>
  How one attempt ends, by the \<^verbatim>\<open>except\<close> clause of \<^verbatim>\<open>_make_request\<close> that would catch
  it: a response was received and its text read (\<open>Response status text json\<close>), the
  attempt raised \<^verbatim>\<open>asyncio.TimeoutError\<close>, it raised \<^verbatim>\<open>aiohttp.ClientConnectionError\<close>
  (with the str of the exception), or it raised anything else. For a response,
  \<^verbatim>\<open>response.json()\<close> returns the decoded body, raises \<^verbatim>\<open>ContentTypeError\<close>, or raises
  another exception (the decoder's, on a body that is not JSON under a JSON content type).
\<close>

datatype json_outcome =
    JsonValue json
  | ContentTypeError
  | JsonError string

datatype http_outcome =
    Response int string json_outcome
  | TimeoutError
  | ClientConnectionError string
  | TransportError string

text \<open>
  What is outside the repository: the server and the network (\<open>respond\<close>: how the
  attempt goes whose request is the \<open>n\<close>-th that the client sends, counting from 0, given
  that request), the clock (\<open>now\<close>: \<^verbatim>\<open>datetime.now()\<close> read while that request is
  prepared, in seconds; \<open>now_iso\<close>: \<^verbatim>\<open>datetime.now().isoformat()\<close> when a response is
  parsed), and five functions of the Python library: \<^verbatim>\<open>Decimal(s)\<close> on a str (\<open>None\<close>
  where it raises \<^verbatim>\<open>InvalidOperation\<close>), \<^verbatim>\<open>str(v)\<close> on a decoded value that is not a
  str, \<^verbatim>\<open>float(d)\<close> on a Decimal, \<^verbatim>\<open>format(d, '.2f')\<close> on a Decimal (the text, or the
  exception it raises: a \<^verbatim>\<open>ValueError\<close> when the digits asked for exceed the library's
  limits), and \<^verbatim>\<open>repr(s)\<close> on a str.
\<close>

record world =
  respond :: "nat \<Rightarrow> http_request \<Rightarrow> http_outcome"
  now :: "nat \<Rightarrow> int"
  now_iso :: string
  Decimal_of_str :: "string \<Rightarrow> decimal option"
  str_of :: "json \<Rightarrow> string"
  float_of :: "decimal \<Rightarrow> decimal"
  format_2f :: "decimal \<Rightarrow> error + string"
  repr_of :: "string \<Rightarrow> string"

subsection \<open>Python built-ins\<close>

text \<open>\<^verbatim>\<open>str(n)\<close> for an int.\<close>

definition digit_char :: "nat \<Rightarrow> char" where
  "digit_char d = char_of (48 + d)"

fun str_nat :: "nat \<Rightarrow> string" where
  "str_nat n = (if n < 10 then [digit_char n] else str_nat (n div 10) @ [digit_char (n mod 10)])"

definition str_int :: "int \<Rightarrow> string" where
  "str_int i = (if i < 0 then CHR ''-'' # str_nat (nat (- i)) else str_nat (nat i))"

text \<open>
  \<^verbatim>\<open>str.isspace\<close> on the code points below 256, and \<^verbatim>\<open>str.strip()\<close>.
\<close>

definition isspace :: "char \<Rightarrow> bool" where
  "isspace ch = ((of_char ch :: nat) \<in> {9, 10, 11, 12, 13, 28, 29, 30, 31, 32, 133, 160})"

definition strip :: "string \<Rightarrow> string" where
  "strip s = rev (dropWhile isspace (rev (dropWhile isspace s)))"

text \<open>The truth value of a decoded value (\<^verbatim>\<open>if v\<close>, \<^verbatim>\<open>not v\<close>, \<^verbatim>\<open>v or w\<close>).\<close>

fun dec_is_zero :: "decimal \<Rightarrow> bool" where
  "dec_is_zero (Finite s c e) = (c = 0)"
| "dec_is_zero (Infinity s) = False"
| "dec_is_zero NaN = False"

fun truthy :: "json \<Rightarrow> bool" where
  "truthy JNull = False"
| "truthy (JBool b) = b"
| "truthy (JInt i) = (i \<noteq> 0)"
| "truthy (JFloat d) = (\<not> dec_is_zero d)"
| "truthy (JStr s) = (s \<noteq> [])"
| "truthy (JArr xs) = (xs \<noteq> [])"
| "truthy (JObj kvs) = (kvs \<noteq> [])"

text \<open>The name of a decoded value's type, and a name between single quotes.\<close>

fun type_name :: "json \<Rightarrow> string" where
  "type_name JNull = ''NoneType''"
| "type_name (JBool b) = ''bool''"
| "type_name (JInt i) = ''int''"
| "type_name (JFloat d) = ''float''"
| "type_name (JStr s) = ''str''"
| "type_name (JArr xs) = ''list''"
| "type_name (JObj kvs) = ''dict''"

definition quoted :: "string \<Rightarrow> string" where
  "quoted s = [CHR 0x27] @ s @ [CHR 0x27]"

definition no_attribute :: "json \<Rightarrow> string \<Rightarrow> string" where
  "no_attribute v a = quoted (type_name v) @ '' object has no attribute '' @ quoted a"

text \<open>
  \<^verbatim>\<open>v.get(key, default)\<close>: the dict's entry or the default; a value that is not a dict
  has no \<^verbatim>\<open>get\<close> and the call raises \<^verbatim>\<open>AttributeError\<close>.
\<close>

definition dict_get :: "(string \<times> json) list \<Rightarrow> string \<Rightarrow> json \<Rightarrow> json" where
  "dict_get kvs k dflt = (case map_of kvs k of Some v \<Rightarrow> v | None \<Rightarrow> dflt)"

fun py_get :: "json \<Rightarrow> string \<Rightarrow> json \<Rightarrow> error + json" where
  "py_get (JObj kvs) k dflt = Inr (dict_get kvs k dflt)"
| "py_get v k dflt = Inl (AttributeError (no_attribute v ''get''))"

text \<open>\<^verbatim>\<open>str(v)\<close> of a decoded value: a str is itself.\<close>

definition py_str :: "world \<Rightarrow> json \<Rightarrow> string" where
  "py_str w v = (case v of JStr s \<Rightarrow> s | _ \<Rightarrow> str_of w v)"

subsection \<open>Decimal\<close>

definition signed_coeff :: "bool \<Rightarrow> nat \<Rightarrow> int" where
  "signed_coeff s c = (if s then - int c else int c)"


text \<open>\<^verbatim>\<open>d1 == d2\<close> for two Decimals: by value; a NaN equals nothing.\<close>

fun dec_eq :: "decimal \<Rightarrow> decimal \<Rightarrow> bool" where
  "dec_eq (Finite s1 c1 e1) (Finite s2 c2 e2) =
     (signed_coeff s1 c1 * 10 ^ nat (e1 - min e1 e2) = signed_coeff s2 c2 * 10 ^ nat (e2 - min e1 e2))"
| "dec_eq (Infinity s1) (Infinity s2) = (s1 = s2)"
| "dec_eq d1 d2 = False"

text \<open>
  \<^verbatim>\<open>Decimal(str(v))\<close> for a decoded value. The str of an int is its digits and the
  Decimal of them is the int; the str of a float is the decimal that holds it; a str goes
  to the library's parser; \<^verbatim>\<open>'None'\<close>, \<^verbatim>\<open>'True'\<close>, \<^verbatim>\<open>'False'\<close> and the str of a list
  or a dict are not numerals and \<^verbatim>\<open>Decimal\<close> raises.
\<close>

fun Decimal_str :: "world \<Rightarrow> json \<Rightarrow> error + decimal" where
  "Decimal_str w (JInt i) = Inr (Finite (i < 0) (nat \<bar>i\<bar>) 0)"
| "Decimal_str w (JFloat d) = Inr d"
| "Decimal_str w (JStr s) =
     (case Decimal_of_str w s of Some d \<Rightarrow> Inr d | None \<Rightarrow> Inl InvalidOperation)"
| "Decimal_str w v = Inl InvalidOperation"



section \<open>models.py\<close>

subsection \<open>TransferRequest\<close>

record TransferRequest =
  from_account :: string
  to_account :: string
  amount :: decimal






subsection \<open>TransferResponse\<close>

record TransferResponse =
  transaction_id :: json
  status :: json
  from_account :: json
  to_account :: json
  amount :: decimal
  timestamp :: json
  message :: json
  bonus_points :: json
  permission_level :: json
  new_from_balance :: "decimal option"
  new_to_balance :: "decimal option"

text \<open>
  \<^verbatim>\<open>Decimal(str(data.get(k, 0))) if data.get(k) else None\<close>, for a balance key \<open>k\<close>.
\<close>

definition optional_balance :: "world \<Rightarrow> (string \<times> json) list \<Rightarrow> string \<Rightarrow> error + decimal option" where
  "optional_balance w kvs k =
     (if truthy (dict_get kvs k JNull)
      then (case Decimal_str w (dict_get kvs k (JInt 0)) of Inl e \<Rightarrow> Inl e | Inr d \<Rightarrow> Inr (Some d))
      else Inr None)"

text \<open>
  \<^verbatim>\<open>from_dict\<close>: the timestamp first (\<^verbatim>\<open>a or b or c\<close> is the first of them that is true,
  else the last), then the arguments of the constructor in the order they are written;
  a field that is absent from the dict is \<^verbatim>\<open>None\<close>, here \<open>JNull\<close>.
\<close>

definition TransferResponse_from_dict :: "world \<Rightarrow> json \<Rightarrow> error + TransferResponse" where
  "TransferResponse_from_dict w data =
     (case data of
        JObj kvs \<Rightarrow>
          (let ts = (if truthy (dict_get kvs ''timestamp'' JNull) then dict_get kvs ''timestamp'' JNull
                     else if truthy (dict_get kvs ''issuedAt'' JNull) then dict_get kvs ''issuedAt'' JNull
                     else JStr (now_iso w))
           in case Decimal_str w (dict_get kvs ''amount'' (JInt 0)) of
                Inl e \<Rightarrow> Inl e
              | Inr amt \<Rightarrow>
                 (case optional_balance w kvs ''newFromAccountBalance'' of
                    Inl e \<Rightarrow> Inl e
                  | Inr nf \<Rightarrow>
                     (case optional_balance w kvs ''newToAccountBalance'' of
                        Inl e \<Rightarrow> Inl e
                      | Inr nt \<Rightarrow>
                         Inr \<lparr>transaction_id = dict_get kvs ''transactionId'' (JStr ''''),
                              status = dict_get kvs ''status'' (JStr ''UNKNOWN''),
                              from_account = dict_get kvs ''fromAccount'' (JStr ''''),
                              to_account = dict_get kvs ''toAccount'' (JStr ''''),
                              amount = amt,
                              timestamp = ts,
                              message = dict_get kvs ''message'' JNull,
                              bonus_points = dict_get kvs ''bonusPoints'' JNull,
                              permission_level = dict_get kvs ''permissionLevel'' JNull,
                              new_from_balance = nf,
                              new_to_balance = nt\<rparr>)))
      | _ \<Rightarrow> Inl (AttributeError (no_attribute data ''get'')))"

subsection \<open>AuthToken\<close>

record AuthToken =
  token :: json
  expires_at :: "int option"
  token_type :: string

text \<open>\<^verbatim>\<open>AuthToken(token=t)\<close>: the other two fields take their defaults.\<close>

definition AuthToken_init :: "json \<Rightarrow> AuthToken" where
  "AuthToken_init t = \<lparr>token = t, expires_at = None, token_type = ''Bearer''\<rparr>"

definition is_expired :: "int \<Rightarrow> AuthToken \<Rightarrow> bool" where
  "is_expired t tok = (case expires_at tok of None \<Rightarrow> False | Some e \<Rightarrow> e \<le> t)"

definition get_header_value :: "world \<Rightarrow> AuthToken \<Rightarrow> string" where
  "get_header_value w tok = token_type tok @ '' '' @ py_str w (token tok)"

section \<open>config.py\<close>

record Config =
  base_url :: string
  timeout :: int
  max_retries :: int
  log_level :: string

section \<open>api_client.py\<close>

text \<open>
  The client object: its configuration, whether \<^verbatim>\<open>self.session\<close> is set (it is \<^verbatim>\<open>None\<close>
  until the context manager is entered), and the auth token. Two more fields record what
  the client has done to the outside: the requests handed to \<^verbatim>\<open>session.request\<close> and the
  arguments of \<^verbatim>\<open>asyncio.sleep\<close>, each in order.
\<close>

record BankingAPIClient =
  config :: Config
  session :: bool
  auth_token :: "AuthToken option"
  requests :: "http_request list"
  sleeps :: "nat list"

definition set_auth_token :: "json \<Rightarrow> BankingAPIClient \<Rightarrow> BankingAPIClient" where
  "set_auth_token t c = c\<lparr>auth_token := Some (AuthToken_init t)\<rparr>"

text \<open>
  The headers of a request: \<^verbatim>\<open>Authorization\<close> when a token is set and has not expired.
\<close>

definition auth_headers :: "world \<Rightarrow> BankingAPIClient \<Rightarrow> (string \<times> string) list" where
  "auth_headers w c =
     (case auth_token c of
        None \<Rightarrow> []
      | Some tok \<Rightarrow>
          if \<not> is_expired (now w (length (requests c))) tok
          then [(''Authorization'', get_header_value w tok)] else [])"

text \<open>
  \<^verbatim>\<open>_make_request\<close>. \<open>retry_count\<close> starts at 0 and each retry adds one; the exceptions
  of the attempt are the branches of the \<open>case\<close>. A \<^verbatim>\<open>BankingAPIError\<close> raised inside the
  \<^verbatim>\<open>try\<close> reaches \<^verbatim>\<open>except Exception\<close>, which logs it and raises it again.
\<close>

function make_request ::
  "world \<Rightarrow> string \<Rightarrow> string \<Rightarrow> json option \<Rightarrow> (string \<times> json) list option \<Rightarrow> nat
     \<Rightarrow> BankingAPIClient \<Rightarrow> (error + json) \<times> BankingAPIClient" where
  "make_request w meth endpoint json_data ps retry_count c =
     (if \<not> session c
      then (Inl (RuntimeError ''Client session not initialized. Use async context manager.''), c)
      else
        let u = base_url (config c) @ endpoint;
            req = \<lparr>http_method = meth, url = u, json_body = json_data, params = ps,
                   headers = auth_headers w c\<rparr>;
            c1 = c\<lparr>requests := requests c @ [req]\<rparr>
        in case respond w (length (requests c)) req of
             Response st response_text js \<Rightarrow>
               if 400 \<le> st
               then (Inl (BankingAPIError (''API error (status '' @ str_int st @ ''): '' @ response_text)
                            (Some st)), c1)
               else (case js of
                       JsonValue v \<Rightarrow> (Inr v, c1)
                     | ContentTypeError \<Rightarrow>
                         if st < 300
                         then (Inr (JObj [(''status'', JStr ''success''), (''message'', JStr response_text)]), c1)
                         else (Inl (BankingAPIError (''Invalid JSON response: '' @ response_text) None), c1)
                     | JsonError m \<Rightarrow> (Inl (OtherError m), c1))
           | TimeoutError \<Rightarrow>
               if int retry_count < max_retries (config c)
               then make_request w meth endpoint json_data ps (retry_count + 1)
                      (c1\<lparr>sleeps := sleeps c1 @ [2 ^ retry_count]\<rparr>)
               else (Inl (ConnectionError
                            (''Request timeout after '' @ str_int (timeout (config c)) @ ''s: ''
                               @ meth @ '' '' @ u)), c1)
           | ClientConnectionError m \<Rightarrow>
               if int retry_count < max_retries (config c)
               then make_request w meth endpoint json_data ps (retry_count + 1)
                      (c1\<lparr>sleeps := sleeps c1 @ [2 ^ retry_count]\<rparr>)
               else (Inl (ConnectionError
                            (''Connection failed: '' @ m @ [CHR 0x0A]
                               @ ''Please ensure the banking server is running at ''
                               @ base_url (config c))), c1)
           | TransportError m \<Rightarrow> (Inl (OtherError m), c1))"
  by pat_completeness auto
termination
  by (relation "measure (\<lambda>(w, meth, endpoint, json_data, ps, retry_count, c).
                   nat (max_retries (config c) - int retry_count))") auto

declare make_request.simps [simp del]

text \<open>The operations built on \<^verbatim>\<open>_make_request\<close>, each called with \<open>retry_count = 0\<close>.\<close>

definition get_auth_token ::
  "world \<Rightarrow> string \<Rightarrow> string \<Rightarrow> string \<Rightarrow> BankingAPIClient \<Rightarrow> (error + json) \<times> BankingAPIClient" where
  "get_auth_token w username password claim c =
     (case make_request w ''POST'' ''/authToken''
             (Some (JObj [(''username'', JStr username), (''password'', JStr password)]))
             (Some [(''claim'', JStr claim)]) 0 c of
        (Inl e, c') \<Rightarrow> (Inl e, c')
      | (Inr response, c') \<Rightarrow>
          (case py_get response ''token'' JNull of
             Inl e \<Rightarrow> (Inl e, c')
           | Inr tok \<Rightarrow>
               if \<not> truthy tok
               then (Inl (BankingAPIError ''No token in authentication response'' None), c')
               else (Inr tok, c')))"

definition validate_account ::
  "world \<Rightarrow> string \<Rightarrow> BankingAPIClient \<Rightarrow> (error + json) \<times> BankingAPIClient" where
  "validate_account w account_number c =
     (case make_request w ''GET'' (''/accounts/validate/'' @ account_number) None None 0 c of
        (Inr response, c') \<Rightarrow>
          (case py_get response ''isValid'' (JBool False) of
             Inl e \<Rightarrow> (Inl e, c')
           | Inr is_valid \<Rightarrow> (Inr is_valid, c'))
      | (Inl (BankingAPIError m sc), c') \<Rightarrow> (Inr (JBool False), c')
      | (Inl e, c') \<Rightarrow> (Inl e, c'))"

text \<open>
  \<^verbatim>\<open>get_account_balance\<close> returns the response as it is; the debug line before the return
  calls \<^verbatim>\<open>response.get\<close>, which raises when the response is not a dict.
\<close>

definition get_account_balance ::
  "world \<Rightarrow> string \<Rightarrow> BankingAPIClient \<Rightarrow> (error + json) \<times> BankingAPIClient" where
  "get_account_balance w account_number c =
     (case make_request w ''GET'' (''/accounts/balance/'' @ account_number) None None 0 c of
        (Inl e, c') \<Rightarrow> (Inl e, c')
      | (Inr response, c') \<Rightarrow>
          (case py_get response ''balance'' (JInt 0) of
             Inl e \<Rightarrow> (Inl e, c')
           | Inr b \<Rightarrow> (Inr response, c')))"

text \<open>\<^verbatim>\<open>len(v)\<close> is defined on a str, a list and a dict.\<close>

fun has_len :: "json \<Rightarrow> bool" where
  "has_len (JStr s) = True"
| "has_len (JArr xs) = True"
| "has_len (JObj kvs) = True"
| "has_len v = False"

definition list_accounts :: "world \<Rightarrow> BankingAPIClient \<Rightarrow> (error + json) \<times> BankingAPIClient" where
  "list_accounts w c =
     (case make_request w ''GET'' ''/accounts'' None None 0 c of
        (Inl e, c') \<Rightarrow> (Inl e, c')
      | (Inr response, c') \<Rightarrow>
          (case response of
             JObj kvs \<Rightarrow>
               (case map_of kvs ''accounts'' of
                  Some accounts \<Rightarrow>
                    if has_len accounts then (Inr accounts, c')
                    else (Inl (TypeError (''object of type '' @ quoted (type_name accounts)
                                           @ '' has no len()'')), c')
                | None \<Rightarrow> (Inr (JArr []), c'))
           | JArr xs \<Rightarrow> (Inr (JArr xs), c')
           | _ \<Rightarrow> (Inr (JArr []), c')))"


text \<open>
  \<^verbatim>\<open>validate_token\<close>: the assignment that puts the original token back is the statement
  after the request, inside the \<^verbatim>\<open>try\<close>; the handler of \<^verbatim>\<open>BankingAPIError\<close> returns
  \<^verbatim>\<open>False\<close> and any other exception leaves the method.
\<close>

definition validate_token ::
  "world \<Rightarrow> json \<Rightarrow> BankingAPIClient \<Rightarrow> (error + json) \<times> BankingAPIClient" where
  "validate_token w tok c =
     (let original_token = auth_token c;
          c1 = c\<lparr>auth_token := Some (AuthToken_init tok)\<rparr>
      in case make_request w ''POST'' ''/auth/validate'' None None 0 c1 of
           (Inr response, c2) \<Rightarrow>
             (let c3 = c2\<lparr>auth_token := original_token\<rparr>
              in case py_get response ''valid'' (JBool False) of
                   Inl e \<Rightarrow> (Inl e, c3)
                 | Inr is_valid \<Rightarrow> (Inr is_valid, c3))
         | (Inl (BankingAPIError m sc), c2) \<Rightarrow> (Inr (JBool False), c2)
         | (Inl e, c2) \<Rightarrow> (Inl e, c2))"

text \<open>
  \<^verbatim>\<open>get_transaction_history\<close>: \<^verbatim>\<open>if account_number\<close> is false for \<^verbatim>\<open>None\<close> and for the
  empty str.
\<close>

definition history_params :: "string option \<Rightarrow> int \<Rightarrow> (string \<times> json) list" where
  "history_params account_number limit =
     (case account_number of
        None \<Rightarrow> [(''limit'', JInt limit)]
      | Some a \<Rightarrow>
          if a \<noteq> [] then [(''limit'', JInt limit), (''accountNumber'', JStr a)]
          else [(''limit'', JInt limit)])"

definition get_transaction_history ::
  "world \<Rightarrow> string option \<Rightarrow> int \<Rightarrow> BankingAPIClient \<Rightarrow> (error + json) \<times> BankingAPIClient" where
  "get_transaction_history w account_number limit c =
     (case make_request w ''GET'' ''/transactions/history'' None
             (Some (history_params account_number limit)) 0 c of
        (Inl e, c') \<Rightarrow> (Inl e, c')
      | (Inr response, c') \<Rightarrow>
          (case py_get response ''transactions'' (JArr []) of
             Inl e \<Rightarrow> (Inl e, c')
           | Inr txs \<Rightarrow> (Inr txs, c')))"

section \<open>services.py\<close>

text \<open>
  The service holds the client and nothing else, so its methods are functions of the
  client. \<^verbatim>\<open>except Exception\<close> catches every error of the model.
\<close>

definition TransferService_authenticate ::
  "world \<Rightarrow> string \<Rightarrow> string \<Rightarrow> BankingAPIClient \<Rightarrow> json option \<times> BankingAPIClient" where
  "TransferService_authenticate w username password c =
     (case get_auth_token w username password ''transfer'' c of
        (Inr tok, c') \<Rightarrow> (Some tok, set_auth_token tok c')
      | (Inl e, c') \<Rightarrow> (None, c'))"

definition TransferService_validate_account ::
  "world \<Rightarrow> string \<Rightarrow> BankingAPIClient \<Rightarrow> json \<times> BankingAPIClient" where
  "TransferService_validate_account w account_number c =
     (case validate_account w account_number c of
        (Inr v, c') \<Rightarrow> (v, c')
      | (Inl e, c') \<Rightarrow> (JBool False, c'))"


text \<open>The three methods whose handler logs the error and raises it again.\<close>

definition TransferService_get_balance ::
  "world \<Rightarrow> string \<Rightarrow> BankingAPIClient \<Rightarrow> (error + json) \<times> BankingAPIClient" where
  "TransferService_get_balance w account_number c =
     (case get_account_balance w account_number c of
        (Inr v, c') \<Rightarrow> (Inr v, c')
      | (Inl e, c') \<Rightarrow> (Inl e, c'))"

definition TransferService_list_accounts ::
  "world \<Rightarrow> BankingAPIClient \<Rightarrow> (error + json) \<times> BankingAPIClient" where
  "TransferService_list_accounts w c =
     (case list_accounts w c of
        (Inr v, c') \<Rightarrow> (Inr v, c')
      | (Inl e, c') \<Rightarrow> (Inl e, c'))"

definition TransferService_get_transaction_history ::
  "world \<Rightarrow> string option \<Rightarrow> int \<Rightarrow> BankingAPIClient \<Rightarrow> (error + json) \<times> BankingAPIClient" where
  "TransferService_get_transaction_history w account_number limit c =
     (case get_transaction_history w account_number limit c of
        (Inr v, c') \<Rightarrow> (Inr v, c')
      | (Inl e, c') \<Rightarrow> (Inl e, c'))"

definition TransferService_validate_token ::
  "world \<Rightarrow> json \<Rightarrow> BankingAPIClient \<Rightarrow> json \<times> BankingAPIClient" where
  "TransferService_validate_token w tok c =
     (case validate_token w tok c of
        (Inr v, c') \<Rightarrow> (v, c')
      | (Inl e, c') \<Rightarrow> (JBool False, c'))"

section \<open>banking_client.py\<close>


section \<open>Notation for the statements\<close>

text \<open>
  The request that \<^verbatim>\<open>_make_request\<close> hands to the session when called on a client, and
  the client after the request has been handed over.
\<close>

definition request_of ::
  "world \<Rightarrow> string \<Rightarrow> string \<Rightarrow> json option \<Rightarrow> (string \<times> json) list option
     \<Rightarrow> BankingAPIClient \<Rightarrow> http_request" where
  "request_of w meth endpoint json_data ps c =
     \<lparr>http_method = meth, url = base_url (config c) @ endpoint, json_body = json_data, params = ps,
      headers = auth_headers w c\<rparr>"

definition sent :: "http_request \<Rightarrow> BankingAPIClient \<Rightarrow> BankingAPIClient" where
  "sent req c = c\<lparr>requests := requests c @ [req]\<rparr>"

text \<open>An attempt fails in a way that is retried: a timeout or a connection error.\<close>

fun transient :: "http_outcome \<Rightarrow> bool" where
  "transient TimeoutError = True"
| "transient (ClientConnectionError m) = True"
| "transient a = False"

text \<open>
  Concrete surroundings and clients, for the examples. Of the library they know what the
  examples use: the amount 100.00 formats as \<^verbatim>\<open>100.00\<close>, and the \<^verbatim>\<open>repr\<close> of a plain name
  is the name between single quotes.
\<close>

definition world_of :: "(nat \<Rightarrow> http_request \<Rightarrow> http_outcome) \<Rightarrow> world" where
  "world_of f =
     \<lparr>respond = f,
      now = (\<lambda>n. 0),
      now_iso = ''2026-01-01T00:00:00'',
      Decimal_of_str = (\<lambda>s. None),
      str_of = (\<lambda>v. []),
      float_of = (\<lambda>d. d),
      format_2f = (\<lambda>d. if d = Finite False 10000 (- 2) then Inr ''100.00''
                         else Inl (ValueError ''format specification exceeds internal limits of _decimal'')),
      repr_of = quoted\<rparr>"

definition always :: "http_outcome \<Rightarrow> nat \<Rightarrow> http_request \<Rightarrow> http_outcome" where
  "always a n r = a"

definition failing_first :: "nat \<Rightarrow> http_outcome \<Rightarrow> http_outcome \<Rightarrow> nat \<Rightarrow> http_request \<Rightarrow> http_outcome" where
  "failing_first k a b n r = (if n < k then a else b)"

definition example_world :: world where
  "example_world = world_of (always (Response 404 ''Not Found'' ContentTypeError))"

definition example_client :: BankingAPIClient where
  "example_client =
     \<lparr>config = \<lparr>base_url = ''http://localhost:8123'', timeout = 30, max_retries = 3,
                 log_level = ''INFO''\<rparr>,
      session = True, auth_token = None, requests = [], sleeps = []\<rparr>"

definition example_response :: json where
  "example_response =
     JObj [(''transactionId'', JStr ''txn-123''),
           (''status'', JStr ''SUCCESS''),
           (''fromAccount'', JStr ''ACC1000''),
           (''toAccount'', JStr ''ACC1001''),
           (''amount'', JFloat (Finite False 1000 (- 1))),
           (''timestamp'', JStr ''2025-11-01T10:00:00Z'')]"

definition example_balances :: "(string \<times> json) list" where
  "example_balances =
     [(''amount'', JInt 5), (''newFromAccountBalance'', JInt 0),
      (''newToAccountBalance'', JInt 7), (''newFromBalance'', JInt 9)]"

definition example_parsed :: TransferResponse where
  "example_parsed =
     \<lparr>transaction_id = JStr [], status = JStr ''UNKNOWN'',
      from_account = JStr [], to_account = JStr [],
      amount = Finite False 5 0, timestamp = JStr ''2026-01-01T00:00:00'',
      message = JNull, bonus_points = JNull, permission_level = JNull,
      new_from_balance = None, new_to_balance = Some (Finite False 7 0)\<rparr>"

definition token_world :: world where
  "token_world = world_of (always (Response 200 ''{}'' (JsonValue (JObj [(''token'', JStr ''jwt'')]))))"


section \<open>Properties\<close>

subsection \<open>Facts about the examples and the built-ins\<close>

lemma strip_Nil [simp]: "strip [] = []"
  by (simp add: strip_def)

lemma world_of_simps [simp]:
  "respond (world_of f) = f"
  "now (world_of f) n = 0"
  "now_iso (world_of f) = ''2026-01-01T00:00:00''"
  "Decimal_of_str (world_of f) s = None"
  "str_of (world_of f) v = []"
  "float_of (world_of f) d = d"
  "format_2f (world_of f) (Finite False 10000 (- 2)) = Inr ''100.00''"
  "repr_of (world_of f) = quoted"
  by (simp_all add: world_of_def)

lemma example_client_simps [simp]:
  "session example_client"
  "auth_token example_client = None"
  "requests example_client = []"
  "sleeps example_client = []"
  "max_retries (config example_client) = 3"
  "base_url (config example_client) = ''http://localhost:8123''"
  "timeout (config example_client) = 30"
  by (simp_all add: example_client_def)

lemma set_auth_token_simps [simp]:
  "auth_token (set_auth_token t c) = Some (AuthToken_init t)"
  "session (set_auth_token t c) = session c"
  "config (set_auth_token t c) = config c"
  "requests (set_auth_token t c) = requests c"
  "sleeps (set_auth_token t c) = sleeps c"
  by (simp_all add: set_auth_token_def)

lemma sent_simps [simp]:
  "session (sent r c) = session c"
  "config (sent r c) = config c"
  "auth_token (sent r c) = auth_token c"
  "sleeps (sent r c) = sleeps c"
  "requests (sent r c) = requests c @ [r]"
  by (simp_all add: sent_def)

lemma str_int_404: "str_int 404 = ''404''"
  by code_simp

subsection \<open>TransferRequest\<close>



subsection \<open>TransferResponse\<close>

lemma from_dict_Inr:
  assumes "TransferResponse_from_dict w (JObj kvs) = Inr r"
  shows "TransferResponse.status r = dict_get kvs ''status'' (JStr ''UNKNOWN'')"
    and "TransferResponse.timestamp r =
           (if truthy (dict_get kvs ''timestamp'' JNull) then dict_get kvs ''timestamp'' JNull
            else if truthy (dict_get kvs ''issuedAt'' JNull) then dict_get kvs ''issuedAt'' JNull
            else JStr (now_iso w))"
    and "Decimal_str w (dict_get kvs ''amount'' (JInt 0)) = Inr (TransferResponse.amount r)"
    and "optional_balance w kvs ''newFromAccountBalance'' = Inr (new_from_balance r)"
    and "optional_balance w kvs ''newToAccountBalance'' = Inr (new_to_balance r)"
  using assms
  by (auto simp: TransferResponse_from_dict_def Let_def split: sum.splits)

lemma example_response_parsed:
  "TransferResponse_from_dict w example_response =
     Inr \<lparr>transaction_id = JStr ''txn-123'', status = JStr ''SUCCESS'',
           from_account = JStr ''ACC1000'', to_account = JStr ''ACC1001'',
           amount = Finite False 1000 (- 1), timestamp = JStr ''2025-11-01T10:00:00Z'',
           message = JNull, bonus_points = JNull, permission_level = JNull,
           new_from_balance = None, new_to_balance = None\<rparr>"
  by (simp add: TransferResponse_from_dict_def example_response_def dict_get_def
        optional_balance_def)

lemma optional_balance_cases:
  "map_of kvs k = Some (JInt 0) \<Longrightarrow> optional_balance w kvs k = Inr None"
  "map_of kvs k = Some (JFloat (Finite s 0 e)) \<Longrightarrow> optional_balance w kvs k = Inr None"
  "map_of kvs k = None \<Longrightarrow> optional_balance w kvs k = Inr None"
  "map_of kvs k = Some (JInt n) \<Longrightarrow> n \<noteq> 0 \<Longrightarrow>
     optional_balance w kvs k = Inr (Some (Finite (n < 0) (nat \<bar>n\<bar>) 0))"
  by (simp_all add: optional_balance_def dict_get_def)

text \<open>
  C8, as the claim states it, fails: the object \<^verbatim>\<open>{issuedAt: "2025-11-01T10:00:00Z"}\<close> has
  no timestamp, and the parsed timestamp is the value of \<^verbatim>\<open>issuedAt\<close>, not the current
  time.
\<close>

theorem from_dict_timestamp_counterexample:
  "map_of [(''issuedAt'', JStr ''2025-11-01T10:00:00Z'')] ''timestamp'' = None
   \<and> TransferResponse_from_dict example_world (JObj [(''issuedAt'', JStr ''2025-11-01T10:00:00Z'')])
       = Inr \<lparr>transaction_id = JStr [], status = JStr ''UNKNOWN'',
               from_account = JStr [], to_account = JStr [],
               amount = Finite False 0 0, timestamp = JStr ''2025-11-01T10:00:00Z'',
               message = JNull, bonus_points = JNull, permission_level = JNull,
               new_from_balance = None, new_to_balance = None\<rparr>
   \<and> JStr ''2025-11-01T10:00:00Z'' \<noteq> JStr (now_iso example_world)"
  by (simp add: TransferResponse_from_dict_def dict_get_def optional_balance_def example_world_def)

text \<open>
  C8, amended. \<^verbatim>\<open>from_dict\<close> applied to the object of the claim (its amount the float
  100.00) yields a record whose amount equals the Decimal 100.00 and whose status is
  \<^verbatim>\<open>"SUCCESS"\<close>. For every input object on which \<^verbatim>\<open>from_dict\<close> returns a record, a missing
  status is \<^verbatim>\<open>"UNKNOWN"\<close>, and a missing timestamp is the value of \<^verbatim>\<open>issuedAt\<close> when that
  is present and true, and the current time otherwise.
\<close>

theorem from_dict_example_and_defaults:
  "(\<exists>r. TransferResponse_from_dict w example_response = Inr r
        \<and> dec_eq (TransferResponse.amount r) (Finite False 10000 (- 2))
        \<and> TransferResponse.status r = JStr ''SUCCESS'')
   \<and> (\<forall>kvs r. TransferResponse_from_dict w (JObj kvs) = Inr r \<longrightarrow>
         (map_of kvs ''status'' = None \<longrightarrow> TransferResponse.status r = JStr ''UNKNOWN'')
       \<and> (map_of kvs ''timestamp'' = None \<longrightarrow>
            TransferResponse.timestamp r =
              (if truthy (dict_get kvs ''issuedAt'' JNull) then dict_get kvs ''issuedAt'' JNull
               else JStr (now_iso w))))"
proof (intro conjI allI impI)
  show "\<exists>r. TransferResponse_from_dict w example_response = Inr r
        \<and> dec_eq (TransferResponse.amount r) (Finite False 10000 (- 2))
        \<and> TransferResponse.status r = JStr ''SUCCESS''"
    by (simp add: example_response_parsed signed_coeff_def)
next
  fix kvs r
  assume r: "TransferResponse_from_dict w (JObj kvs) = Inr r"
  { assume "map_of kvs ''status'' = None"
    then show "TransferResponse.status r = JStr ''UNKNOWN''"
      using from_dict_Inr(1) [OF r] by (simp add: dict_get_def) }
  { assume "map_of kvs ''timestamp'' = None"
    then show "TransferResponse.timestamp r =
              (if truthy (dict_get kvs ''issuedAt'' JNull) then dict_get kvs ''issuedAt'' JNull
               else JStr (now_iso w))"
      using from_dict_Inr(2) [OF r] by (simp add: dict_get_def) }
qed

text \<open>
  The theorem at an object that has neither a status nor a timestamp nor \<^verbatim>\<open>issuedAt\<close>.
\<close>

theorem from_dict_example_and_defaults_witness:
  "TransferResponse_from_dict example_world (JObj example_balances) = Inr example_parsed
   \<and> map_of example_balances ''status'' = None
   \<and> map_of example_balances ''timestamp'' = None
   \<and> TransferResponse.status example_parsed = JStr ''UNKNOWN''
   \<and> TransferResponse.timestamp example_parsed = JStr (now_iso example_world)"
proof -
  have m: "map_of example_balances ''status'' = None"
          "map_of example_balances ''timestamp'' = None"
          "dict_get example_balances ''issuedAt'' JNull = JNull"
    by (simp_all add: example_balances_def dict_get_def)
  have p: "TransferResponse_from_dict example_world (JObj example_balances) = Inr example_parsed"
    by (simp add: TransferResponse_from_dict_def dict_get_def optional_balance_def
          example_balances_def example_world_def example_parsed_def)
  from from_dict_example_and_defaults [of example_world] p m
  show ?thesis by auto
qed

text \<open>
  C9. \<^verbatim>\<open>from_dict\<close> reads the balances under the keys \<^verbatim>\<open>newFromAccountBalance\<close> and
  \<^verbatim>\<open>newToAccountBalance\<close>: for every input object on which it returns a record, a balance
  key present with the value 0 (the int, or a float zero) gives the field \<^verbatim>\<open>None\<close>, a
  balance key present with a non-zero int gives that number, and a balance key that is
  absent gives \<^verbatim>\<open>None\<close> whatever the object holds under other keys.
\<close>

theorem from_dict_balance_keys:
  "\<forall>kvs r. TransferResponse_from_dict w (JObj kvs) = Inr r \<longrightarrow>
     (map_of kvs ''newFromAccountBalance'' = Some (JInt 0) \<longrightarrow> new_from_balance r = None)
   \<and> (map_of kvs ''newToAccountBalance'' = Some (JInt 0) \<longrightarrow> new_to_balance r = None)
   \<and> (\<forall>s e. map_of kvs ''newFromAccountBalance'' = Some (JFloat (Finite s 0 e)) \<longrightarrow>
          new_from_balance r = None)
   \<and> (\<forall>s e. map_of kvs ''newToAccountBalance'' = Some (JFloat (Finite s 0 e)) \<longrightarrow>
          new_to_balance r = None)
   \<and> (\<forall>n. n \<noteq> 0 \<longrightarrow> map_of kvs ''newFromAccountBalance'' = Some (JInt n) \<longrightarrow>
          new_from_balance r = Some (Finite (n < 0) (nat \<bar>n\<bar>) 0))
   \<and> (\<forall>n. n \<noteq> 0 \<longrightarrow> map_of kvs ''newToAccountBalance'' = Some (JInt n) \<longrightarrow>
          new_to_balance r = Some (Finite (n < 0) (nat \<bar>n\<bar>) 0))
   \<and> (map_of kvs ''newFromAccountBalance'' = None \<longrightarrow> new_from_balance r = None)
   \<and> (map_of kvs ''newToAccountBalance'' = None \<longrightarrow> new_to_balance r = None)"
proof (intro allI impI)
  fix kvs r
  assume r: "TransferResponse_from_dict w (JObj kvs) = Inr r"
  note f = from_dict_Inr(4) [OF r] and t = from_dict_Inr(5) [OF r]
  show "(map_of kvs ''newFromAccountBalance'' = Some (JInt 0) \<longrightarrow> new_from_balance r = None)
   \<and> (map_of kvs ''newToAccountBalance'' = Some (JInt 0) \<longrightarrow> new_to_balance r = None)
   \<and> (\<forall>s e. map_of kvs ''newFromAccountBalance'' = Some (JFloat (Finite s 0 e)) \<longrightarrow>
          new_from_balance r = None)
   \<and> (\<forall>s e. map_of kvs ''newToAccountBalance'' = Some (JFloat (Finite s 0 e)) \<longrightarrow>
          new_to_balance r = None)
   \<and> (\<forall>n. n \<noteq> 0 \<longrightarrow> map_of kvs ''newFromAccountBalance'' = Some (JInt n) \<longrightarrow>
          new_from_balance r = Some (Finite (n < 0) (nat \<bar>n\<bar>) 0))
   \<and> (\<forall>n. n \<noteq> 0 \<longrightarrow> map_of kvs ''newToAccountBalance'' = Some (JInt n) \<longrightarrow>
          new_to_balance r = Some (Finite (n < 0) (nat \<bar>n\<bar>) 0))
   \<and> (map_of kvs ''newFromAccountBalance'' = None \<longrightarrow> new_from_balance r = None)
   \<and> (map_of kvs ''newToAccountBalance'' = None \<longrightarrow> new_to_balance r = None)"
    using f t by (auto simp: optional_balance_cases)
qed

text \<open>
  The theorem at an object with \<^verbatim>\<open>newFromAccountBalance: 0\<close>, \<^verbatim>\<open>newToAccountBalance: 7\<close>
  and, under the key that is not read, \<^verbatim>\<open>newFromBalance: 9\<close>.
\<close>

theorem from_dict_balance_keys_witness:
  "TransferResponse_from_dict example_world (JObj example_balances) = Inr example_parsed
   \<and> map_of example_balances ''newFromAccountBalance'' = Some (JInt 0)
   \<and> map_of example_balances ''newToAccountBalance'' = Some (JInt 7)
   \<and> map_of example_balances ''newFromBalance'' = Some (JInt 9)
   \<and> new_from_balance example_parsed = None
   \<and> new_to_balance example_parsed = Some (Finite False 7 0)"
proof -
  have m: "map_of example_balances ''newFromAccountBalance'' = Some (JInt 0)"
          "map_of example_balances ''newToAccountBalance'' = Some (JInt 7)"
          "map_of example_balances ''newFromBalance'' = Some (JInt 9)"
    by (simp_all add: example_balances_def)
  have p: "TransferResponse_from_dict example_world (JObj example_balances) = Inr example_parsed"
    by (simp add: TransferResponse_from_dict_def dict_get_def optional_balance_def
          example_balances_def example_world_def example_parsed_def)
  from from_dict_balance_keys [of example_world, rule_format, OF p] m p
  show ?thesis by simp
qed

subsection \<open>One attempt of a request\<close>

text \<open>
  What \<^verbatim>\<open>_make_request\<close> does, by the outcome of the attempt: the results that end the
  call, and the step to the next attempt.
\<close>

lemma make_request_no_session:
  "\<not> session c \<Longrightarrow> make_request w meth endpoint jd ps k c =
     (Inl (RuntimeError ''Client session not initialized. Use async context manager.''), c)"
  by (simp add: make_request.simps)

lemma make_request_error_status:
  assumes "session c"
    and "respond w (length (requests c)) (request_of w meth endpoint jd ps c) = Response st response_text js"
    and "400 \<le> st"
  shows "make_request w meth endpoint jd ps k c =
     (Inl (BankingAPIError (''API error (status '' @ str_int st @ ''): '' @ response_text) (Some st)),
      sent (request_of w meth endpoint jd ps c) c)"
  using assms by (simp add: make_request.simps [of w meth endpoint jd ps k c] request_of_def sent_def)

lemma make_request_json:
  assumes "session c"
    and "respond w (length (requests c)) (request_of w meth endpoint jd ps c) = Response st response_text (JsonValue v)"
    and "st < 400"
  shows "make_request w meth endpoint jd ps k c = (Inr v, sent (request_of w meth endpoint jd ps c) c)"
  using assms by (simp add: make_request.simps [of w meth endpoint jd ps k c] request_of_def sent_def)

lemma make_request_content_type:
  assumes "session c"
    and "respond w (length (requests c)) (request_of w meth endpoint jd ps c) = Response st response_text ContentTypeError"
    and "st < 400"
  shows "make_request w meth endpoint jd ps k c =
     (if st < 300 then Inr (JObj [(''status'', JStr ''success''), (''message'', JStr response_text)])
      else Inl (BankingAPIError (''Invalid JSON response: '' @ response_text) None),
      sent (request_of w meth endpoint jd ps c) c)"
  using assms by (simp add: make_request.simps [of w meth endpoint jd ps k c] request_of_def sent_def)

lemma make_request_retry:
  assumes "session c"
    and "transient (respond w (length (requests c)) (request_of w meth endpoint jd ps c))"
    and "int k < max_retries (config c)"
  shows "make_request w meth endpoint jd ps k c =
     make_request w meth endpoint jd ps (Suc k)
       ((sent (request_of w meth endpoint jd ps c) c)\<lparr>sleeps := sleeps c @ [2 ^ k]\<rparr>)"
  using assms
  by (cases "respond w (length (requests c)) (request_of w meth endpoint jd ps c)")
     (simp_all add: make_request.simps [of w meth endpoint jd ps k c] request_of_def sent_def)

lemma make_request_exhausted:
  assumes "session c"
    and "transient (respond w (length (requests c)) (request_of w meth endpoint jd ps c))"
    and "\<not> int k < max_retries (config c)"
  shows "\<exists>msg. make_request w meth endpoint jd ps k c =
           (Inl (ConnectionError msg), sent (request_of w meth endpoint jd ps c) c)
         \<and> sublist (base_url (config c)) msg"
proof (cases "respond w (length (requests c)) (request_of w meth endpoint jd ps c)")
  case TimeoutError
  let ?pre = "''Request timeout after '' @ str_int (timeout (config c)) @ ''s: '' @ meth @ '' ''"
  have "make_request w meth endpoint jd ps k c =
          (Inl (ConnectionError (?pre @ base_url (config c) @ endpoint)),
           sent (request_of w meth endpoint jd ps c) c)"
    using assms TimeoutError
    by (simp add: make_request.simps [of w meth endpoint jd ps k c] Let_def request_of_def sent_def)
  moreover have "sublist (base_url (config c)) (?pre @ base_url (config c) @ endpoint)"
    by (rule sublist_appendI)
  ultimately show ?thesis by blast
next
  case (ClientConnectionError m)
  let ?pre = "''Connection failed: '' @ m @ [CHR 0x0A] @ ''Please ensure the banking server is running at ''"
  have "make_request w meth endpoint jd ps k c =
          (Inl (ConnectionError (?pre @ base_url (config c))),
           sent (request_of w meth endpoint jd ps c) c)"
    using assms ClientConnectionError
    by (simp add: make_request.simps [of w meth endpoint jd ps k c] Let_def request_of_def sent_def)
  moreover have "sublist (base_url (config c)) (?pre @ base_url (config c))"
    by (rule sublist_append_leftI)
  ultimately show ?thesis by blast
qed (use assms in simp_all)

subsection \<open>The retry loop\<close>

text \<open>
  By induction on the number of failed attempts, for a call that is at its \<open>j\<close>-th retry.
\<close>

lemma retry_success:
  assumes "session c"
    and "\<forall>i<k. \<forall>r. transient (respond w (length (requests c) + i) r)"
    and "\<forall>r. respond w (length (requests c) + k) r = Response st response_text (JsonValue v)"
    and "st < 400"
    and "int (j + k) \<le> max_retries (config c)"
  shows "fst (make_request w meth endpoint jd ps j c) = Inr v
       \<and> sleeps (snd (make_request w meth endpoint jd ps j c)) = sleeps c @ map (\<lambda>i. 2 ^ (j + i)) [0..<k]
       \<and> length (requests (snd (make_request w meth endpoint jd ps j c))) = length (requests c) + k + 1"
  using assms
proof (induction k arbitrary: j c)
  case 0
  then show ?case by (simp add: make_request_json)
next
  case (Suc k)
  let ?c' = "(sent (request_of w meth endpoint jd ps c) c)\<lparr>sleeps := sleeps c @ [2 ^ j]\<rparr>"
  have tr: "transient (respond w (length (requests c)) (request_of w meth endpoint jd ps c))"
    using Suc.prems(2) by (metis add.right_neutral zero_less_Suc)
  have lt: "int j < max_retries (config c)" using Suc.prems(5) by simp
  have step: "make_request w meth endpoint jd ps j c = make_request w meth endpoint jd ps (Suc j) ?c'"
    using make_request_retry [OF Suc.prems(1) tr lt] .
  have "fst (make_request w meth endpoint jd ps (Suc j) ?c') = Inr v
       \<and> sleeps (snd (make_request w meth endpoint jd ps (Suc j) ?c')) = sleeps ?c' @ map (\<lambda>i. 2 ^ (Suc j + i)) [0..<k]
       \<and> length (requests (snd (make_request w meth endpoint jd ps (Suc j) ?c'))) = length (requests ?c') + k + 1"
  proof (rule Suc.IH)
    show "session ?c'" using Suc.prems(1) by simp
    show "\<forall>i<k. \<forall>r. transient (respond w (length (requests ?c') + i) r)"
      using Suc.prems(2) by (auto simp: less_Suc_eq_0_disj)
    show "\<forall>r. respond w (length (requests ?c') + k) r = Response st response_text (JsonValue v)"
      using Suc.prems(3) by simp
    show "st < 400" by fact
    show "int (Suc j + k) \<le> max_retries (config ?c')" using Suc.prems(5) by simp
  qed
  then show ?case unfolding step by (simp add: map_upt_Suc del: upt_Suc)
qed

lemma retry_exhausted:
  assumes "session c"
    and "\<forall>i\<le>k. \<forall>r. transient (respond w (length (requests c) + i) r)"
    and "k = nat (max_retries (config c) - int j)"
  shows "\<exists>msg. fst (make_request w meth endpoint jd ps j c) = Inl (ConnectionError msg)
       \<and> sublist (base_url (config c)) msg
       \<and> sleeps (snd (make_request w meth endpoint jd ps j c)) = sleeps c @ map (\<lambda>i. 2 ^ (j + i)) [0..<k]
       \<and> length (requests (snd (make_request w meth endpoint jd ps j c))) = length (requests c) + k + 1"
  using assms
proof (induction k arbitrary: j c)
  case 0
  have tr: "transient (respond w (length (requests c)) (request_of w meth endpoint jd ps c))"
    using "0.prems"(2) by simp
  have ge: "\<not> int j < max_retries (config c)" using "0.prems"(3) by simp
  from make_request_exhausted [OF "0.prems"(1) tr ge]
  show ?case by auto
next
  case (Suc k)
  let ?c' = "(sent (request_of w meth endpoint jd ps c) c)\<lparr>sleeps := sleeps c @ [2 ^ j]\<rparr>"
  have tr: "transient (respond w (length (requests c)) (request_of w meth endpoint jd ps c))"
    using Suc.prems(2) by (metis add.right_neutral le0)
  have lt: "int j < max_retries (config c)" using Suc.prems(3) by linarith
  have step: "make_request w meth endpoint jd ps j c = make_request w meth endpoint jd ps (Suc j) ?c'"
    using make_request_retry [OF Suc.prems(1) tr lt] .
  have "\<exists>msg. fst (make_request w meth endpoint jd ps (Suc j) ?c') = Inl (ConnectionError msg)
       \<and> sublist (base_url (config ?c')) msg
       \<and> sleeps (snd (make_request w meth endpoint jd ps (Suc j) ?c')) = sleeps ?c' @ map (\<lambda>i. 2 ^ (Suc j + i)) [0..<k]
       \<and> length (requests (snd (make_request w meth endpoint jd ps (Suc j) ?c'))) = length (requests ?c') + k + 1"
  proof (rule Suc.IH)
    show "session ?c'" using Suc.prems(1) by simp
    show "\<forall>i\<le>k. \<forall>r. transient (respond w (length (requests ?c') + i) r)"
    proof (intro allI impI)
      fix i r assume "i \<le> k"
      then have "Suc i \<le> Suc k" by simp
      with Suc.prems(2) have "transient (respond w (length (requests c) + Suc i) r)" by blast
      then show "transient (respond w (length (requests ?c') + i) r)" by simp
    qed
    show "k = nat (max_retries (config ?c') - int (Suc j))" using Suc.prems(3) by simp
  qed
  then show ?case unfolding step by (simp add: map_upt_Suc del: upt_Suc)
qed


lemma make_request_attempt:
  assumes "session c"
  shows "(transient (respond w (length (requests c)) (request_of w meth endpoint jd ps c))
            \<and> int k < max_retries (config c))
         \<or> (\<exists>res. make_request w meth endpoint jd ps k c =
                (res, sent (request_of w meth endpoint jd ps c) c))"
proof (cases "respond w (length (requests c)) (request_of w meth endpoint jd ps c)")
  case (Response st body js)
  then show ?thesis using assms
    by (cases js)
       (simp_all add: make_request.simps [of w meth endpoint jd ps k c] Let_def request_of_def sent_def)
next
  case TimeoutError
  then show ?thesis using assms
    by (simp add: make_request.simps [of w meth endpoint jd ps k c] Let_def request_of_def sent_def)
next
  case (ClientConnectionError m)
  then show ?thesis using assms
    by (simp add: make_request.simps [of w meth endpoint jd ps k c] Let_def request_of_def sent_def)
next
  case (TransportError m)
  then show ?thesis using assms
    by (simp add: make_request.simps [of w meth endpoint jd ps k c] Let_def request_of_def sent_def)
qed

lemma make_request_frame:
  "auth_token (snd (make_request w meth endpoint jd ps k c)) = auth_token c
   \<and> config (snd (make_request w meth endpoint jd ps k c)) = config c
   \<and> session (snd (make_request w meth endpoint jd ps k c)) = session c"
proof (induction "nat (max_retries (config c) - int k)" arbitrary: k c rule: less_induct)
  case less
  show ?case
  proof (cases "session c")
    case False
    then show ?thesis by (simp add: make_request_no_session)
  next
    case True
    let ?c' = "(sent (request_of w meth endpoint jd ps c) c)\<lparr>sleeps := sleeps c @ [2 ^ k]\<rparr>"
    from make_request_attempt [OF True, of w meth endpoint jd ps k]
    show ?thesis
    proof
      assume a: "transient (respond w (length (requests c)) (request_of w meth endpoint jd ps c))
                 \<and> int k < max_retries (config c)"
      then have step: "make_request w meth endpoint jd ps k c = make_request w meth endpoint jd ps (Suc k) ?c'"
        using make_request_retry [OF True] by blast
      have "nat (max_retries (config ?c') - int (Suc k)) < nat (max_retries (config c) - int k)"
        using a by simp
      from less [OF this] show ?thesis unfolding step by simp
    next
      assume "\<exists>res. make_request w meth endpoint jd ps k c =
                (res, sent (request_of w meth endpoint jd ps c) c)"
      then show ?thesis by auto
    qed
  qed
qed

lemma auth_headers_unexpiring:
  "auth_token c = Some tok \<Longrightarrow> expires_at tok = None \<Longrightarrow>
     auth_headers w c = [(''Authorization'', get_header_value w tok)]"
  by (simp add: auth_headers_def is_expired_def)

lemma make_request_log:
  assumes "auth_token c = Some tok" and "expires_at tok = None"
  shows "\<exists>new. requests (snd (make_request w meth endpoint jd ps k c)) = requests c @ new
           \<and> (session c \<longrightarrow> new \<noteq> [])
           \<and> (\<forall>r \<in> set new. headers r = [(''Authorization'', get_header_value w tok)])"
  using assms
proof (induction "nat (max_retries (config c) - int k)" arbitrary: k c rule: less_induct)
  case less
  show ?case
  proof (cases "session c")
    case False
    then show ?thesis by (simp add: make_request_no_session)
  next
    case True
    let ?r = "request_of w meth endpoint jd ps c"
    let ?c' = "(sent ?r c)\<lparr>sleeps := sleeps c @ [2 ^ k]\<rparr>"
    have h: "headers ?r = [(''Authorization'', get_header_value w tok)]"
      using less.prems by (simp add: request_of_def auth_headers_unexpiring)
    from make_request_attempt [OF True, of w meth endpoint jd ps k]
    show ?thesis
    proof
      assume a: "transient (respond w (length (requests c)) ?r) \<and> int k < max_retries (config c)"
      then have step: "make_request w meth endpoint jd ps k c = make_request w meth endpoint jd ps (Suc k) ?c'"
        using make_request_retry [OF True] by blast
      have m: "nat (max_retries (config ?c') - int (Suc k)) < nat (max_retries (config c) - int k)"
        using a by simp
      have "auth_token ?c' = Some tok" using less.prems by simp
      from less.hyps [OF m this less.prems(2)]
      obtain new where n: "requests (snd (make_request w meth endpoint jd ps (Suc k) ?c')) = requests ?c' @ new"
        "\<forall>r \<in> set new. headers r = [(''Authorization'', get_header_value w tok)]" by blast
      have "requests (snd (make_request w meth endpoint jd ps k c)) = requests c @ (?r # new)"
        unfolding step using n(1) by simp
      moreover have "\<forall>r \<in> set (?r # new). headers r = [(''Authorization'', get_header_value w tok)]"
        using n(2) h by simp
      ultimately show ?thesis by blast
    next
      assume "\<exists>res. make_request w meth endpoint jd ps k c = (res, sent ?r c)"
      then obtain res where "make_request w meth endpoint jd ps k c = (res, sent ?r c)" ..
      then have "requests (snd (make_request w meth endpoint jd ps k c)) = requests c @ [?r]" by simp
      moreover have "\<forall>r \<in> set [?r]. headers r = [(''Authorization'', get_header_value w tok)]"
        using h by simp
      ultimately show ?thesis by blast
    qed
  qed
qed

subsection \<open>validate_token\<close>

text \<open>
  The original token is put back when the request returns a value; when the request
  raises, the token of the override stays.
\<close>

lemma validate_token_restores_on_success:
  assumes "make_request w ''POST'' ''/auth/validate'' None None 0
             (c\<lparr>auth_token := Some (AuthToken_init tok)\<rparr>) = (Inr response, c2)"
  shows "auth_token (snd (validate_token w tok c)) = auth_token c"
  using assms by (simp add: validate_token_def Let_def split: sum.splits)

lemma validate_token_override_stays_on_error:
  assumes "make_request w ''POST'' ''/auth/validate'' None None 0
             (c\<lparr>auth_token := Some (AuthToken_init tok)\<rparr>) = (Inl e, c2)"
  shows "auth_token (snd (validate_token w tok c)) = Some (AuthToken_init tok)"
proof -
  have "auth_token c2 = Some (AuthToken_init tok)"
    using make_request_frame [of w "''POST''" "''/auth/validate''" None None 0
            "c\<lparr>auth_token := Some (AuthToken_init tok)\<rparr>"] assms by simp
  then show ?thesis using assms
    by (cases e) (simp_all add: validate_token_def Let_def)
qed

text \<open>
  C1, where the code departs from it. The client holds the token \<^verbatim>\<open>old-token\<close>; the
  server answers \<^verbatim>\<open>/auth/validate\<close> with 404. \<^verbatim>\<open>validate_token("new-token")\<close> returns
  \<^verbatim>\<open>False\<close>, and afterwards the client's token is \<^verbatim>\<open>new-token\<close>: the original token is
  not restored.
\<close>

theorem validate_token_leaves_override:
  "fst (validate_token example_world (JStr ''new-token'')
          (set_auth_token (JStr ''old-token'') example_client)) = Inr (JBool False)
   \<and> auth_token (snd (validate_token example_world (JStr ''new-token'')
          (set_auth_token (JStr ''old-token'') example_client)))
       = Some (AuthToken_init (JStr ''new-token''))
   \<and> auth_token (set_auth_token (JStr ''old-token'') example_client)
       = Some (AuthToken_init (JStr ''old-token''))
   \<and> AuthToken_init (JStr ''new-token'') \<noteq> AuthToken_init (JStr ''old-token'')"
proof -
  let ?c1 = "(set_auth_token (JStr ''old-token'') example_client)\<lparr>auth_token := Some (AuthToken_init (JStr ''new-token''))\<rparr>"
  have "make_request example_world ''POST'' ''/auth/validate'' None None 0 ?c1 =
          (Inl (BankingAPIError (''API error (status '' @ str_int 404 @ ''): '' @ ''Not Found'') (Some 404)),
           sent (request_of example_world ''POST'' ''/auth/validate'' None None ?c1) ?c1)"
    by (rule make_request_error_status) (simp_all add: example_world_def always_def)
  then show ?thesis
    by (simp add: validate_token_def Let_def AuthToken_init_def)
qed

subsection \<open>get_transaction_history\<close>

text \<open>
  C2, as the claim states it, fails: the server answers 404 and the service's
  \<^verbatim>\<open>get_transaction_history\<close> raises the \<^verbatim>\<open>BankingAPIError\<close>; it does not return an
  empty sequence.
\<close>

theorem get_transaction_history_counterexample:
  "fst (TransferService_get_transaction_history example_world None 10 example_client)
     = Inl (BankingAPIError ''API error (status 404): Not Found'' (Some 404))"
proof -
  have "make_request example_world ''GET'' ''/transactions/history'' None
          (Some (history_params None 10)) 0 example_client =
          (Inl (BankingAPIError (''API error (status '' @ str_int 404 @ ''): '' @ ''Not Found'') (Some 404)),
           sent (request_of example_world ''GET'' ''/transactions/history'' None
                   (Some (history_params None 10)) example_client) example_client)"
    by (rule make_request_error_status) (simp_all add: example_world_def always_def)
  then show ?thesis
    by (simp add: TransferService_get_transaction_history_def get_transaction_history_def str_int_404)
qed

text \<open>
  C2, amended. For every account number and limit, when the underlying request raises,
  the service's \<^verbatim>\<open>get_transaction_history\<close> raises the same error, with the client as
  the request left it; when the request returns an object, the result is its
  \<^verbatim>\<open>transactions\<close> field, or the empty sequence when the object has no such field.
\<close>

theorem get_transaction_history_propagates:
  "(\<forall>e c'. make_request w ''GET'' ''/transactions/history'' None
              (Some (history_params account_number limit)) 0 c = (Inl e, c')
       \<longrightarrow> TransferService_get_transaction_history w account_number limit c = (Inl e, c'))
   \<and> (\<forall>kvs c'. make_request w ''GET'' ''/transactions/history'' None
              (Some (history_params account_number limit)) 0 c = (Inr (JObj kvs), c')
       \<longrightarrow> TransferService_get_transaction_history w account_number limit c
             = (Inr (case map_of kvs ''transactions'' of Some txs \<Rightarrow> txs | None \<Rightarrow> JArr []), c'))"
  by (simp add: TransferService_get_transaction_history_def get_transaction_history_def dict_get_def)

text \<open>The theorem at a server that answers 404.\<close>

theorem get_transaction_history_propagates_witness:
  "make_request example_world ''GET'' ''/transactions/history'' None
      (Some (history_params (Some ''ACC1000'') 10)) 0 example_client
     = (Inl (BankingAPIError ''API error (status 404): Not Found'' (Some 404)),
        sent (request_of example_world ''GET'' ''/transactions/history'' None
                (Some (history_params (Some ''ACC1000'') 10)) example_client) example_client)
   \<and> TransferService_get_transaction_history example_world (Some ''ACC1000'') 10 example_client
     = (Inl (BankingAPIError ''API error (status 404): Not Found'' (Some 404)),
        sent (request_of example_world ''GET'' ''/transactions/history'' None
                (Some (history_params (Some ''ACC1000'') 10)) example_client) example_client)"
proof -
  have "make_request example_world ''GET'' ''/transactions/history'' None
          (Some (history_params (Some ''ACC1000'') 10)) 0 example_client =
          (Inl (BankingAPIError (''API error (status '' @ str_int 404 @ ''): '' @ ''Not Found'') (Some 404)),
           sent (request_of example_world ''GET'' ''/transactions/history'' None
                   (Some (history_params (Some ''ACC1000'') 10)) example_client) example_client)"
    by (rule make_request_error_status) (simp_all add: example_world_def always_def)
  then have p: "make_request example_world ''GET'' ''/transactions/history'' None
      (Some (history_params (Some ''ACC1000'') 10)) 0 example_client
     = (Inl (BankingAPIError ''API error (status 404): Not Found'' (Some 404)),
        sent (request_of example_world ''GET'' ''/transactions/history'' None
                (Some (history_params (Some ''ACC1000'') 10)) example_client) example_client)"
    by (simp add: str_int_404)
  from get_transaction_history_propagates [of example_world "Some ''ACC1000''" 10 example_client] p
  show ?thesis by blast
qed

subsection \<open>Responses that are not JSON\<close>

text \<open>
  C3, as the claim states it, fails: a response with status 302, below 400, whose body
  \<^verbatim>\<open>response.json()\<close> rejects makes \<^verbatim>\<open>_make_request\<close> raise \<^verbatim>\<open>BankingAPIError\<close>; no
  envelope is returned.
\<close>

theorem make_request_non_json_counterexample:
  "(302::int) < 400
   \<and> make_request (world_of (always (Response 302 ''<html>Found</html>'' ContentTypeError)))
        ''GET'' ''/accounts'' None None 0 example_client
      = (Inl (BankingAPIError ''Invalid JSON response: <html>Found</html>'' None),
         sent (request_of (world_of (always (Response 302 ''<html>Found</html>'' ContentTypeError)))
                 ''GET'' ''/accounts'' None None example_client) example_client)"
proof -
  let ?w = "world_of (always (Response 302 ''<html>Found</html>'' ContentTypeError))"
  have "make_request ?w ''GET'' ''/accounts'' None None 0 example_client =
     (if (302::int) < 300 then Inr (JObj [(''status'', JStr ''success''), (''message'', JStr ''<html>Found</html>'')])
      else Inl (BankingAPIError (''Invalid JSON response: '' @ ''<html>Found</html>'') None),
      sent (request_of ?w ''GET'' ''/accounts'' None None example_client) example_client)"
    by (rule make_request_content_type) (simp_all add: always_def)
  then show ?thesis by simp
qed

text \<open>
  C3, amended. For every response that \<^verbatim>\<open>response.json()\<close> rejects with
  \<^verbatim>\<open>ContentTypeError\<close>: when the status is below 300, \<^verbatim>\<open>_make_request\<close> returns the
  envelope \<^verbatim>\<open>{status: "success", message: <raw body>}\<close>; when the status is from 300 to
  399, it raises \<^verbatim>\<open>BankingAPIError\<close> with the message \<^verbatim>\<open>Invalid JSON response: <raw body>\<close>
  and no status code. Either way one request has been sent.
\<close>

theorem make_request_non_json:
  assumes "session c"
    and "respond w (length (requests c)) (request_of w meth endpoint jd ps c)
           = Response st body ContentTypeError"
  shows "(st < 300 \<longrightarrow>
            make_request w meth endpoint jd ps k c
              = (Inr (JObj [(''status'', JStr ''success''), (''message'', JStr body)]),
                 sent (request_of w meth endpoint jd ps c) c))
       \<and> (300 \<le> st \<and> st < 400 \<longrightarrow>
            make_request w meth endpoint jd ps k c
              = (Inl (BankingAPIError (''Invalid JSON response: '' @ body) None),
                 sent (request_of w meth endpoint jd ps c) c))"
  using make_request_content_type [OF assms, of k] by simp

text \<open>The theorem at a response with status 200 and at one with status 304.\<close>

theorem make_request_non_json_witness:
  "session example_client
   \<and> respond (world_of (always (Response 200 ''OK'' ContentTypeError))) (length (requests example_client))
       (request_of (world_of (always (Response 200 ''OK'' ContentTypeError))) ''POST'' ''/transfer'' None None example_client)
       = Response 200 ''OK'' ContentTypeError
   \<and> make_request (world_of (always (Response 200 ''OK'' ContentTypeError)))
        ''POST'' ''/transfer'' None None 0 example_client
      = (Inr (JObj [(''status'', JStr ''success''), (''message'', JStr ''OK'')]),
         sent (request_of (world_of (always (Response 200 ''OK'' ContentTypeError)))
                 ''POST'' ''/transfer'' None None example_client) example_client)
   \<and> respond (world_of (always (Response 304 [] ContentTypeError))) (length (requests example_client))
       (request_of (world_of (always (Response 304 [] ContentTypeError))) ''GET'' ''/accounts'' None None example_client)
       = Response 304 [] ContentTypeError
   \<and> make_request (world_of (always (Response 304 [] ContentTypeError)))
        ''GET'' ''/accounts'' None None 0 example_client
      = (Inl (BankingAPIError ''Invalid JSON response: '' None),
         sent (request_of (world_of (always (Response 304 [] ContentTypeError)))
                 ''GET'' ''/accounts'' None None example_client) example_client)"
proof -
  let ?w = "world_of (always (Response 200 ''OK'' ContentTypeError))"
  let ?v = "world_of (always (Response 304 [] ContentTypeError))"
  have s: "session example_client" by simp
  have r: "respond ?w (length (requests example_client))
             (request_of ?w ''POST'' ''/transfer'' None None example_client)
           = Response 200 ''OK'' ContentTypeError"
    by (simp add: always_def)
  have r': "respond ?v (length (requests example_client))
             (request_of ?v ''GET'' ''/accounts'' None None example_client)
           = Response 304 [] ContentTypeError"
    by (simp add: always_def)
  from make_request_non_json [OF s r, of 0] make_request_non_json [OF s r', of 0] s r r'
  show ?thesis by simp
qed

subsection \<open>Error statuses\<close>

text \<open>
  C6. For every call on an open session to which the server responds with a status of
  400 or more, \<^verbatim>\<open>_make_request\<close> raises \<^verbatim>\<open>BankingAPIError\<close> carrying the status code, with
  the message \<^verbatim>\<open>API error (status <status>): <raw body>\<close>, after this one request: nothing
  else is sent and there is no sleep. When the server answers every request with 404,
  \<^verbatim>\<open>validate_account\<close> returns \<^verbatim>\<open>False\<close> and \<^verbatim>\<open>get_account_balance\<close> raises
  \<^verbatim>\<open>BankingAPIError\<close> with status 404.
\<close>

theorem make_request_error_status_no_retry:
  assumes "session c"
  shows "(\<forall>st body js.
            respond w (length (requests c)) (request_of w meth endpoint jd ps c) = Response st body js
            \<and> 400 \<le> st \<longrightarrow>
            make_request w meth endpoint jd ps k c
              = (Inl (BankingAPIError (''API error (status '' @ str_int st @ ''): '' @ body) (Some st)),
                 c\<lparr>requests := requests c @ [request_of w meth endpoint jd ps c]\<rparr>))
       \<and> ((\<forall>n r. \<exists>body js. respond w n r = Response 404 body js) \<longrightarrow>
            fst (validate_account w account_number c) = Inr (JBool False)
          \<and> (\<exists>m. fst (get_account_balance w account_number c) = Inl (BankingAPIError m (Some 404))))"
proof (intro conjI allI impI)
  fix st body js
  assume "respond w (length (requests c)) (request_of w meth endpoint jd ps c) = Response st body js
            \<and> 400 \<le> st"
  then show "make_request w meth endpoint jd ps k c
              = (Inl (BankingAPIError (''API error (status '' @ str_int st @ ''): '' @ body) (Some st)),
                 c\<lparr>requests := requests c @ [request_of w meth endpoint jd ps c]\<rparr>)"
    using make_request_error_status [OF assms, of w meth endpoint jd ps st body js k]
    by (simp add: sent_def)
next
  assume a: "\<forall>n r. \<exists>body js. respond w n r = Response 404 body js"
  have e: "\<exists>m c'. make_request w meth' endpoint' None None 0 c = (Inl (BankingAPIError m (Some 404)), c')"
    for meth' endpoint'
  proof -
    obtain body js where "respond w (length (requests c)) (request_of w meth' endpoint' None None c)
        = Response 404 body js" using a by blast
    from make_request_error_status [OF assms this, of 0] show ?thesis by auto
  qed
  from e [of "''GET''" "''/accounts/validate/'' @ account_number"]
  show "fst (validate_account w account_number c) = Inr (JBool False)"
    by (auto simp: validate_account_def)
  from e [of "''GET''" "''/accounts/balance/'' @ account_number"]
  show "\<exists>m. fst (get_account_balance w account_number c) = Inl (BankingAPIError m (Some 404))"
    by (auto simp: get_account_balance_def)
qed

text \<open>The theorem at a server that answers every request with 404.\<close>

theorem make_request_error_status_no_retry_witness:
  "session example_client
   \<and> make_request example_world ''GET'' ''/accounts/balance/ACC1000'' None None 0 example_client
      = (Inl (BankingAPIError ''API error (status 404): Not Found'' (Some 404)),
         example_client\<lparr>requests :=
           [request_of example_world ''GET'' ''/accounts/balance/ACC1000'' None None example_client]\<rparr>)
   \<and> fst (validate_account example_world ''ACC1000'' example_client) = Inr (JBool False)
   \<and> fst (get_account_balance example_world ''ACC1000'' example_client)
      = Inl (BankingAPIError ''API error (status 404): Not Found'' (Some 404))"
proof -
  have s: "session example_client" by simp
  have r: "respond example_world n r = Response 404 ''Not Found'' ContentTypeError" for n r
    by (simp add: example_world_def always_def)
  note t = make_request_error_status_no_retry [OF s, of example_world "''GET''"
             "''/accounts/balance/ACC1000''" None None 0 "''ACC1000''"]
  have 1: "make_request example_world ''GET'' ''/accounts/balance/ACC1000'' None None 0 example_client
      = (Inl (BankingAPIError ''API error (status 404): Not Found'' (Some 404)),
         example_client\<lparr>requests :=
           [request_of example_world ''GET'' ''/accounts/balance/ACC1000'' None None example_client]\<rparr>)"
    using t r by (simp add: str_int_404)
  have 2: "fst (validate_account example_world ''ACC1000'' example_client) = Inr (JBool False)"
    using t r by simp
  have 3: "fst (get_account_balance example_world ''ACC1000'' example_client)
      = Inl (BankingAPIError ''API error (status 404): Not Found'' (Some 404))"
    using 1 by (simp add: get_account_balance_def)
  show ?thesis using s 1 2 3 by simp
qed

subsection \<open>list_accounts\<close>

text \<open>
  C4, as the claim states it, fails: the server's response is the plain list
  \<^verbatim>\<open>[1000, 1001]\<close> and \<^verbatim>\<open>list_accounts\<close> returns that list, which is not empty.
\<close>

theorem list_accounts_plain_list_counterexample:
  "fst (list_accounts (world_of (always (Response 200 ''[1000, 1001]''
                                      (JsonValue (JArr [JInt 1000, JInt 1001])))))
          example_client)
     = Inr (JArr [JInt 1000, JInt 1001])
   \<and> JArr [JInt 1000, JInt 1001] \<noteq> JArr []"
proof -
  let ?w = "world_of (always (Response 200 ''[1000, 1001]'' (JsonValue (JArr [JInt 1000, JInt 1001]))))"
  have "make_request ?w ''GET'' ''/accounts'' None None 0 example_client
          = (Inr (JArr [JInt 1000, JInt 1001]),
             sent (request_of ?w ''GET'' ''/accounts'' None None example_client) example_client)"
    by (rule make_request_json [where st = 200 and response_text = "''[1000, 1001]''"]) (simp_all add: always_def)
  then show ?thesis by (simp add: list_accounts_def)
qed

text \<open>
  C4, amended. When the request returns a value, \<^verbatim>\<open>list_accounts\<close> does not raise in
  these two cases: when the response is a plain list it returns that list, and when the
  response is an object lacking the \<^verbatim>\<open>accounts\<close> key it returns the empty sequence.
\<close>

theorem list_accounts_unwraps:
  assumes "make_request w ''GET'' ''/accounts'' None None 0 c = (Inr response, c')"
  shows "(\<forall>xs. response = JArr xs \<longrightarrow> list_accounts w c = (Inr (JArr xs), c'))
       \<and> (\<forall>kvs. response = JObj kvs \<and> map_of kvs ''accounts'' = None \<longrightarrow>
             list_accounts w c = (Inr (JArr []), c'))"
  using assms by (simp add: list_accounts_def)

text \<open>The theorem at a response that is an object without \<^verbatim>\<open>accounts\<close>.\<close>

theorem list_accounts_unwraps_witness:
  "make_request (world_of (always (Response 200 ''{}'' (JsonValue (JObj [(''totalAccounts'', JInt 0)])))))
      ''GET'' ''/accounts'' None None 0 example_client
     = (Inr (JObj [(''totalAccounts'', JInt 0)]),
        sent (request_of (world_of (always (Response 200 ''{}'' (JsonValue (JObj [(''totalAccounts'', JInt 0)])))))
                ''GET'' ''/accounts'' None None example_client) example_client)
   \<and> map_of [(''totalAccounts'', JInt 0)] ''accounts'' = None
   \<and> list_accounts (world_of (always (Response 200 ''{}'' (JsonValue (JObj [(''totalAccounts'', JInt 0)])))))
        example_client
     = (Inr (JArr []),
        sent (request_of (world_of (always (Response 200 ''{}'' (JsonValue (JObj [(''totalAccounts'', JInt 0)])))))
                ''GET'' ''/accounts'' None None example_client) example_client)"
proof -
  let ?w = "world_of (always (Response 200 ''{}'' (JsonValue (JObj [(''totalAccounts'', JInt 0)]))))"
  have p: "make_request ?w ''GET'' ''/accounts'' None None 0 example_client
          = (Inr (JObj [(''totalAccounts'', JInt 0)]),
             sent (request_of ?w ''GET'' ''/accounts'' None None example_client) example_client)"
    by (rule make_request_json [where st = 200 and response_text = "''{}''"]) (simp_all add: always_def)
  have m: "map_of [(''totalAccounts'', JInt 0)] ''accounts'' = None" by simp
  from list_accounts_unwraps [OF p] p m show ?thesis by simp
qed

subsection \<open>Retries\<close>

text \<open>
  C5. On an open session: when the first \<open>k\<close> attempts, \<open>k\<close> at most
  \<^verbatim>\<open>config.max_retries\<close>, each end in a timeout or a connection error and the next attempt
  gets a response below 400 with a JSON body, \<^verbatim>\<open>_make_request\<close> returns that body, having
  sent \<open>k + 1\<close> requests and slept \<open>2^0, 2^1, ..., 2^(k-1)\<close> seconds, one sleep before each
  retry. When the first attempt and all \<^verbatim>\<open>max_retries\<close> retries end in a timeout or a
  connection error, it raises \<^verbatim>\<open>ConnectionError\<close> with a message that contains the
  configured base URL, having sent \<^verbatim>\<open>max_retries\<close> + 1 requests and slept
  \<open>2^0, ..., 2^(max_retries - 1)\<close> seconds.
\<close>

theorem make_request_retries:
  assumes "session c"
  shows "(\<forall>k st body v.
            int k \<le> max_retries (config c)
            \<and> (\<forall>i<k. \<forall>r. transient (respond w (length (requests c) + i) r))
            \<and> (\<forall>r. respond w (length (requests c) + k) r = Response st body (JsonValue v))
            \<and> st < 400 \<longrightarrow>
            fst (make_request w meth endpoint jd ps 0 c) = Inr v
            \<and> sleeps (snd (make_request w meth endpoint jd ps 0 c))
                = sleeps c @ map (\<lambda>i. 2 ^ i) [0..<k]
            \<and> length (requests (snd (make_request w meth endpoint jd ps 0 c)))
                = length (requests c) + k + 1)
       \<and> ((\<forall>i\<le>nat (max_retries (config c)). \<forall>r. transient (respond w (length (requests c) + i) r)) \<longrightarrow>
            (\<exists>msg. fst (make_request w meth endpoint jd ps 0 c) = Inl (ConnectionError msg)
                  \<and> sublist (base_url (config c)) msg)
            \<and> sleeps (snd (make_request w meth endpoint jd ps 0 c))
                = sleeps c @ map (\<lambda>i. 2 ^ i) [0..<nat (max_retries (config c))]
            \<and> length (requests (snd (make_request w meth endpoint jd ps 0 c)))
                = length (requests c) + nat (max_retries (config c)) + 1)"
proof (intro conjI allI impI)
  fix k st body v
  assume a: "int k \<le> max_retries (config c)
            \<and> (\<forall>i<k. \<forall>r. transient (respond w (length (requests c) + i) r))
            \<and> (\<forall>r. respond w (length (requests c) + k) r = Response st body (JsonValue v))
            \<and> st < 400"
  then have "int (0 + k) \<le> max_retries (config c)" by simp
  from retry_success [OF assms _ _ _ this, of w st body v meth endpoint jd ps] a
  show "fst (make_request w meth endpoint jd ps 0 c) = Inr v"
    and "sleeps (snd (make_request w meth endpoint jd ps 0 c)) = sleeps c @ map (\<lambda>i. 2 ^ i) [0..<k]"
    and "length (requests (snd (make_request w meth endpoint jd ps 0 c))) = length (requests c) + k + 1"
    by simp_all
next
  assume a: "\<forall>i\<le>nat (max_retries (config c)). \<forall>r. transient (respond w (length (requests c) + i) r)"
  have k: "nat (max_retries (config c)) = nat (max_retries (config c) - int 0)" by simp
  from retry_exhausted [OF assms a k, of meth endpoint jd ps]
  show "\<exists>msg. fst (make_request w meth endpoint jd ps 0 c) = Inl (ConnectionError msg)
                  \<and> sublist (base_url (config c)) msg"
    and "sleeps (snd (make_request w meth endpoint jd ps 0 c))
                = sleeps c @ map (\<lambda>i. 2 ^ i) [0..<nat (max_retries (config c))]"
    and "length (requests (snd (make_request w meth endpoint jd ps 0 c)))
                = length (requests c) + nat (max_retries (config c)) + 1"
    by auto
qed

text \<open>
  The theorem with \<^verbatim>\<open>max_retries\<close> = 3: at a server that refuses three connections and
  then answers, and at one that times out every time. The sleeps are 1, 2 and 4 seconds.
\<close>

theorem make_request_retries_witness:
  "session example_client
   \<and> max_retries (config example_client) = 3
   \<and> fst (make_request (world_of (failing_first 3 (ClientConnectionError ''refused'')
                                   (Response 200 ''{}'' (JsonValue (JObj [])))))
            ''GET'' ''/accounts'' None None 0 example_client) = Inr (JObj [])
   \<and> sleeps (snd (make_request (world_of (failing_first 3 (ClientConnectionError ''refused'')
                                   (Response 200 ''{}'' (JsonValue (JObj [])))))
            ''GET'' ''/accounts'' None None 0 example_client)) = [1, 2, 4]
   \<and> length (requests (snd (make_request (world_of (failing_first 3 (ClientConnectionError ''refused'')
                                   (Response 200 ''{}'' (JsonValue (JObj [])))))
            ''GET'' ''/accounts'' None None 0 example_client))) = 4
   \<and> (\<exists>msg. fst (make_request (world_of (always TimeoutError))
                   ''GET'' ''/accounts'' None None 0 example_client) = Inl (ConnectionError msg)
           \<and> sublist ''http://localhost:8123'' msg)
   \<and> sleeps (snd (make_request (world_of (always TimeoutError))
            ''GET'' ''/accounts'' None None 0 example_client)) = [1, 2, 4]
   \<and> length (requests (snd (make_request (world_of (always TimeoutError))
            ''GET'' ''/accounts'' None None 0 example_client))) = 4"
proof -
  let ?w = "world_of (failing_first 3 (ClientConnectionError ''refused'')
                        (Response 200 ''{}'' (JsonValue (JObj []))))"
  let ?v = "world_of (always TimeoutError)"
  have s: "session example_client" by simp
  have u: "[0..<3] = [0, 1, 2]" by (simp add: upt_rec)
  have h1: "int 3 \<le> max_retries (config example_client)
            \<and> (\<forall>i<3. \<forall>r. transient (respond ?w (length (requests example_client) + i) r))
            \<and> (\<forall>r. respond ?w (length (requests example_client) + 3) r
                   = Response 200 ''{}'' (JsonValue (JObj [])))
            \<and> (200::int) < 400"
    by (simp add: failing_first_def)
  have h2: "\<forall>i\<le>nat (max_retries (config example_client)). \<forall>r.
              transient (respond ?v (length (requests example_client) + i) r)"
    by (simp add: always_def)
  note a = make_request_retries [OF s, of ?w "''GET''" "''/accounts''" None None, THEN conjunct1]
  note t1 = a [THEN spec [where x = "3::nat"], THEN spec [where x = "200::int"],
               THEN spec [where x = "''{}''"], THEN spec [where x = "JObj []"], THEN mp, OF h1]
  note t2 = make_request_retries [OF s, of ?v "''GET''" "''/accounts''" None None, THEN conjunct2,
              THEN mp, OF h2]
  show ?thesis using s t1 t2 by (simp add: u)
qed

subsection \<open>authenticate\<close>

lemma get_auth_token_frame:
  "auth_token (snd (get_auth_token w username password claim c)) = auth_token c"
  using make_request_frame [of w "''POST''" "''/authToken''"
          "Some (JObj [(''username'', JStr username), (''password'', JStr password)])"
          "Some [(''claim'', JStr claim)]" 0 c]
  by (auto simp: get_auth_token_def split: prod.splits sum.splits)

text \<open>
  C10. When \<^verbatim>\<open>TransferService.authenticate\<close> returns a token, the client's token is
  \<^verbatim>\<open>AuthToken(token)\<close>, which never expires, and every request that \<^verbatim>\<open>_make_request\<close>
  sends for a client holding this token carries the header \<^verbatim>\<open>Authorization: Bearer <token>\<close>
  (on an open session at least one request is sent). When \<^verbatim>\<open>authenticate\<close> returns
  \<^verbatim>\<open>None\<close>, the client's token is the one it had before.
\<close>

theorem authenticate_stores_token:
  "(\<forall>tok c'. TransferService_authenticate w username password c = (Some tok, c') \<longrightarrow>
       auth_token c' = Some (AuthToken_init tok)
     \<and> (\<forall>w' meth endpoint jd ps k c2. auth_token c2 = auth_token c' \<longrightarrow>
          (\<exists>new. requests (snd (make_request w' meth endpoint jd ps k c2)) = requests c2 @ new
               \<and> (session c2 \<longrightarrow> new \<noteq> [])
               \<and> (\<forall>r\<in>set new. headers r = [(''Authorization'', ''Bearer '' @ py_str w' tok)]))))
   \<and> (\<forall>c'. TransferService_authenticate w username password c = (None, c') \<longrightarrow>
         auth_token c' = auth_token c)"
proof (intro conjI allI impI)
  fix tok c'
  assume a: "TransferService_authenticate w username password c = (Some tok, c')"
  then show t: "auth_token c' = Some (AuthToken_init tok)"
    by (auto simp: TransferService_authenticate_def split: prod.splits sum.splits)
  fix w' meth endpoint jd ps k and c2 :: BankingAPIClient
  assume "auth_token c2 = auth_token c'"
  then have c2: "auth_token c2 = Some (AuthToken_init tok)" using t by simp
  have e: "expires_at (AuthToken_init tok) = None" by (simp add: AuthToken_init_def)
  have h: "get_header_value w' (AuthToken_init tok) = ''Bearer '' @ py_str w' tok"
    by (simp add: get_header_value_def AuthToken_init_def)
  from make_request_log [OF c2 e, of w' meth endpoint jd ps k]
  show "\<exists>new. requests (snd (make_request w' meth endpoint jd ps k c2)) = requests c2 @ new
               \<and> (session c2 \<longrightarrow> new \<noteq> [])
               \<and> (\<forall>r\<in>set new. headers r = [(''Authorization'', ''Bearer '' @ py_str w' tok)])"
    unfolding h .
next
  fix c'
  assume "TransferService_authenticate w username password c = (None, c')"
  then show "auth_token c' = auth_token c"
    using get_auth_token_frame [of w username password "''transfer''" c]
    by (auto simp: TransferService_authenticate_def split: prod.splits sum.splits)
qed

text \<open>
  The theorem at a server that answers with the token \<^verbatim>\<open>jwt\<close>, and at one that answers
  404.
\<close>

theorem authenticate_stores_token_witness:
  "fst (TransferService_authenticate token_world ''alice'' ''any'' example_client) = Some (JStr ''jwt'')
   \<and> auth_token (snd (TransferService_authenticate token_world ''alice'' ''any'' example_client))
       = Some (AuthToken_init (JStr ''jwt''))
   \<and> headers (last (requests (snd (make_request token_world ''POST'' ''/transfer'' None None 0
         (snd (TransferService_authenticate token_world ''alice'' ''any'' example_client))))))
       = [(''Authorization'', ''Bearer jwt'')]
   \<and> fst (TransferService_authenticate example_world ''alice'' ''any'' example_client) = None
   \<and> auth_token (snd (TransferService_authenticate example_world ''alice'' ''any'' example_client))
       = auth_token example_client"
proof -
  let ?jd = "Some (JObj [(''username'', JStr ''alice''), (''password'', JStr ''any'')])"
  let ?ps = "Some [(''claim'', JStr ''transfer'')]"
  have "make_request token_world ''POST'' ''/authToken'' ?jd ?ps 0 example_client
          = (Inr (JObj [(''token'', JStr ''jwt'')]),
             sent (request_of token_world ''POST'' ''/authToken'' ?jd ?ps example_client) example_client)"
    by (rule make_request_json [where st = 200 and response_text = "''{}''"])
       (simp_all add: token_world_def always_def)
  then have ok: "TransferService_authenticate token_world ''alice'' ''any'' example_client
      = (Some (JStr ''jwt''),
         set_auth_token (JStr ''jwt'')
           (sent (request_of token_world ''POST'' ''/authToken'' ?jd ?ps example_client) example_client))"
    by (simp add: TransferService_authenticate_def get_auth_token_def dict_get_def)
  have "make_request example_world ''POST'' ''/authToken'' ?jd ?ps 0 example_client
          = (Inl (BankingAPIError (''API error (status '' @ str_int 404 @ ''): '' @ ''Not Found'') (Some 404)),
             sent (request_of example_world ''POST'' ''/authToken'' ?jd ?ps example_client) example_client)"
    by (rule make_request_error_status) (simp_all add: example_world_def always_def)
  then have ko: "TransferService_authenticate example_world ''alice'' ''any'' example_client
      = (None, sent (request_of example_world ''POST'' ''/authToken'' ?jd ?ps example_client) example_client)"
    by (simp add: TransferService_authenticate_def get_auth_token_def)
  let ?c' = "set_auth_token (JStr ''jwt'')
           (sent (request_of token_world ''POST'' ''/authToken'' ?jd ?ps example_client) example_client)"
  note t = authenticate_stores_token [of token_world "''alice''" "''any''" example_client,
             THEN conjunct1, rule_format, OF ok]
  note f = authenticate_stores_token [of example_world "''alice''" "''any''" example_client,
             THEN conjunct2, rule_format, OF ko]
  from t have 1: "auth_token ?c' = Some (AuthToken_init (JStr ''jwt''))" by blast
  from t have "\<exists>new. requests (snd (make_request token_world ''POST'' ''/transfer'' None None 0 ?c'))
                   = requests ?c' @ new
               \<and> (session ?c' \<longrightarrow> new \<noteq> [])
               \<and> (\<forall>r\<in>set new. headers r = [(''Authorization'', ''Bearer '' @ py_str token_world (JStr ''jwt''))])"
    by blast
  then obtain new where n: "requests (snd (make_request token_world ''POST'' ''/transfer'' None None 0 ?c'))
                   = requests ?c' @ new" "new \<noteq> []"
       "\<forall>r\<in>set new. headers r = [(''Authorization'', ''Bearer '' @ py_str token_world (JStr ''jwt''))]"
    by auto
  have "last (requests (snd (make_request token_world ''POST'' ''/transfer'' None None 0 ?c'))) \<in> set new"
    using n(1,2) by simp
  then have 2: "headers (last (requests (snd (make_request token_world ''POST'' ''/transfer'' None None 0 ?c'))))
       = [(''Authorization'', ''Bearer jwt'')]"
    using n(3) by (simp add: py_str_def)
  show ?thesis using ok ko 1 2 f by simp
qed

subsection \<open>Constructing a request and sending it\<close>






end
